theory Spec2Isabelle
  imports Complex_Main "HOL-Library.Word"
begin

section \<open>JavaScript values used by the visualisation classes\<close>

text \<open>
  A JavaScript number is a finite value, one of the two infinities, or NaN. Finite
  arithmetic is taken exactly: the rounding of IEEE doubles is not modelled, and a sum,
  difference, product or quotient of finite values never overflows to an infinity (the
  quotient by zero aside). The two zeros are identified. Comparisons and the propagation
  of NaN follow the language:
  every comparison with NaN is false, \<open>0/0\<close>, \<open>Infinity - Infinity\<close> and
  \<open>0 * Infinity\<close> are NaN.
\<close>

datatype jsnum = NaN | NInf | Fin real | PInf

fun isNaN :: "jsnum \<Rightarrow> bool" where
  "isNaN NaN = True"
| "isNaN _ = False"

fun js_lt :: "jsnum \<Rightarrow> jsnum \<Rightarrow> bool" where
  "js_lt NaN _ = False"
| "js_lt _ NaN = False"
| "js_lt NInf NInf = False"
| "js_lt NInf _ = True"
| "js_lt (Fin a) (Fin b) = (a < b)"
| "js_lt (Fin a) PInf = True"
| "js_lt (Fin a) NInf = False"
| "js_lt PInf _ = False"

definition js_gt :: "jsnum \<Rightarrow> jsnum \<Rightarrow> bool" where
  "js_gt a b = js_lt b a"

fun js_neg :: "jsnum \<Rightarrow> jsnum" where
  "js_neg NaN = NaN"
| "js_neg NInf = PInf"
| "js_neg (Fin a) = Fin (- a)"
| "js_neg PInf = NInf"

fun js_add :: "jsnum \<Rightarrow> jsnum \<Rightarrow> jsnum" where
  "js_add NaN _ = NaN"
| "js_add _ NaN = NaN"
| "js_add (Fin a) (Fin b) = Fin (a + b)"
| "js_add (Fin a) x = x"
| "js_add PInf NInf = NaN"
| "js_add PInf _ = PInf"
| "js_add NInf PInf = NaN"
| "js_add NInf _ = NInf"

definition js_sub :: "jsnum \<Rightarrow> jsnum \<Rightarrow> jsnum" where
  "js_sub a b = js_add a (js_neg b)"

definition signed_inf :: "real \<Rightarrow> jsnum" where
  "signed_inf a = (if a = 0 then NaN else if 0 < a then PInf else NInf)"

fun js_mul :: "jsnum \<Rightarrow> jsnum \<Rightarrow> jsnum" where
  "js_mul NaN _ = NaN"
| "js_mul _ NaN = NaN"
| "js_mul (Fin a) (Fin b) = Fin (a * b)"
| "js_mul (Fin a) PInf = signed_inf a"
| "js_mul (Fin a) NInf = signed_inf (- a)"
| "js_mul PInf (Fin b) = signed_inf b"
| "js_mul NInf (Fin b) = signed_inf (- b)"
| "js_mul PInf PInf = PInf"
| "js_mul PInf NInf = NInf"
| "js_mul NInf PInf = NInf"
| "js_mul NInf NInf = PInf"

fun js_div :: "jsnum \<Rightarrow> jsnum \<Rightarrow> jsnum" where
  "js_div NaN _ = NaN"
| "js_div _ NaN = NaN"
| "js_div (Fin a) (Fin b) = (if b = 0 then signed_inf a else Fin (a / b))"
| "js_div (Fin a) _ = Fin 0"
| "js_div PInf (Fin b) = (if 0 \<le> b then PInf else NInf)"
| "js_div NInf (Fin b) = (if 0 \<le> b then NInf else PInf)"
| "js_div _ _ = NaN"

fun js_cos :: "jsnum \<Rightarrow> jsnum" where
  "js_cos (Fin a) = Fin (cos a)"
| "js_cos _ = NaN"

fun js_sin :: "jsnum \<Rightarrow> jsnum" where
  "js_sin (Fin a) = Fin (sin a)"
| "js_sin _ = NaN"

text \<open>
  Strings are byte lists; the non-ASCII glyphs of the status messages are written as
  their UTF-8 bytes.
\<close>

definition check_mark :: string where
  "check_mark = [CHR 0xE2, CHR 0x9C, CHR 0x93]"

definition cross_mark :: string where
  "cross_mark = [CHR 0xE2, CHR 0x9C, CHR 0x97]"

definition helicopter :: string where
  "helicopter = [CHR 0xF0, CHR 0x9F, CHR 0x9A, CHR 0x81]"

definition stopwatch :: string where
  "stopwatch = [CHR 0xE2, CHR 0x8F, CHR 0xB1]"

section \<open>LaserScanVisualization: connection and navigation status\<close>

text \<open>
  The state of the transport session held in \<open>this.ros\<close>, as the browser's socket
  reports it. \<open>None\<close> in the field \<open>ros\<close> is JavaScript's \<open>null\<close>.
\<close>

datatype transport = Connecting | Open | Closing | Closed

record topic =
  topic_name :: string
  messageType :: string
  subscribed :: bool

text \<open>
  The fields of the class that the connection and navigation code reads or writes.
  \<open>timers\<close> holds the delays of the pending \<open>setTimeout(() => this.connectToROS(), ...)\<close>
  calls, oldest first; their handles are never stored by the source. \<open>rosCreated\<close>
  counts the \<open>new ROSLIB.Ros\<close> calls, and \<open>statusLog\<close> records every call of
  \<open>updateStatus\<close> in order, as a spy on the status indicator would.
\<close>

record viz =
  ros :: "transport option"
  rosCreated :: nat
  laserScanTopic :: "topic option"
  goalPublisher :: "topic option"
  cancelPublisher :: "topic option"
  pathSubscriber :: "topic option"
  statusSubscriber :: "topic option"
  navigationStatus :: string
  connectionStatus :: string
  statusBarColor :: string
  statusBarText :: string
  goalPosition :: "(jsnum \<times> jsnum) option"
  goalMarkerVisible :: bool
  navControlsDisplay :: string
  timers :: "nat list"
  statusLog :: "(string \<times> string) list"

definition colors :: "string \<Rightarrow> string option" where
  "colors st =
     (if st = ''connected'' then Some ''#00FF00''
      else if st = ''connecting'' then Some ''#FDB913''
      else if st = ''disconnected'' then Some ''#FF0000''
      else None)"

definition updateStatus :: "viz \<Rightarrow> string \<Rightarrow> string \<Rightarrow> viz" where
  "updateStatus s st message =
     s\<lparr>connectionStatus := st,
       statusBarColor := (case colors st of Some c \<Rightarrow> c | None \<Rightarrow> ''#FDB913''),
       statusBarText := message,
       statusLog := statusLog s @ [(st, message)]\<rparr>"

definition hideNavigationControls :: "viz \<Rightarrow> viz" where
  "hideNavigationControls s = s\<lparr>navControlsDisplay := ''none''\<rparr>"

definition clearGoal :: "viz \<Rightarrow> viz" where
  "clearGoal s =
     updateStatus
       (hideNavigationControls (s\<lparr>goalPosition := None, goalMarkerVisible := False\<rparr>))
       ''connected'' (check_mark @ '' Connected to ROS'')"

definition connectToROS :: "viz \<Rightarrow> viz" where
  "connectToROS s =
     (updateStatus s ''connecting'' ''Connecting to ROS...'')
       \<lparr>ros := Some Connecting, rosCreated := Suc (rosCreated s)\<rparr>"

definition subscribeLaserScan :: "viz \<Rightarrow> viz" where
  "subscribeLaserScan s =
     s\<lparr>laserScanTopic :=
        Some \<lparr>topic_name = ''/world'', messageType = ''sensor_msgs/LaserScan'',
              subscribed = True\<rparr>\<rparr>"

definition setupGoalPublisher :: "viz \<Rightarrow> viz" where
  "setupGoalPublisher s =
     s\<lparr>goalPublisher :=
        Some \<lparr>topic_name = ''/move_base_simple/goal'',
              messageType = ''geometry_msgs/PoseStamped'', subscribed = False\<rparr>,
       cancelPublisher :=
        Some \<lparr>topic_name = ''/move_base/cancel'',
              messageType = ''actionlib_msgs/GoalID'', subscribed = False\<rparr>\<rparr>"

definition subscribePath :: "viz \<Rightarrow> viz" where
  "subscribePath s =
     s\<lparr>pathSubscriber :=
        Some \<lparr>topic_name = ''/move_base/NavfnROS/plan'', messageType = ''nav_msgs/Path'',
              subscribed = True\<rparr>\<rparr>"

definition subscribeNavigationStatus :: "viz \<Rightarrow> viz" where
  "subscribeNavigationStatus s =
     s\<lparr>statusSubscriber :=
        Some \<lparr>topic_name = ''/move_base/status'',
              messageType = ''actionlib_msgs/GoalStatusArray'', subscribed = True\<rparr>\<rparr>"

text \<open>The three handlers that \<open>connectToROS\<close> registers on the session.\<close>

definition on_connection :: "viz \<Rightarrow> viz" where
  "on_connection s =
     subscribeNavigationStatus (subscribePath (setupGoalPublisher (subscribeLaserScan
       (updateStatus s ''connected'' (check_mark @ '' Connected to ROS'')))))"

definition on_error :: "viz \<Rightarrow> viz" where
  "on_error s =
     updateStatus s ''disconnected'' (cross_mark @ '' Connection Error - Check rosbridge'')"

definition on_close :: "viz \<Rightarrow> viz" where
  "on_close s =
     (let s1 = updateStatus s ''disconnected'' (cross_mark @ '' Disconnected from ROS'')
      in s1\<lparr>timers := timers s1 @ [3000]\<rparr>)"

text \<open>
  \<open>ros.close()\<close> asks the socket to close; the session's \<open>close\<close> event arrives
  later, as an event of its own.
\<close>

definition ros_close :: "transport \<Rightarrow> transport" where
  "ros_close t = (case t of Closed \<Rightarrow> Closed | _ \<Rightarrow> Closing)"

definition disconnect :: "viz \<Rightarrow> viz" where
  "disconnect s =
     (let s1 = (case laserScanTopic s of
                  None \<Rightarrow> s
                | Some t \<Rightarrow> s\<lparr>laserScanTopic := Some (t\<lparr>subscribed := False\<rparr>)\<rparr>)
      in case ros s1 of
           None \<Rightarrow> s1
         | Some t \<Rightarrow> s1\<lparr>ros := Some (ros_close t)\<rparr>)"

subsection \<open>Navigation status\<close>

record goal_status =
  status :: int

text \<open>\<open>status_list = None\<close> is a message without the field.\<close>

record status_message =
  status_list :: "goal_status list option"

definition statusMap :: "int \<Rightarrow> string option" where
  "statusMap c =
     (if c = 0 then Some ''PENDING''
      else if c = 1 then Some ''ACTIVE''
      else if c = 2 then Some ''PREEMPTED''
      else if c = 3 then Some ''SUCCEEDED''
      else if c = 4 then Some ''ABORTED''
      else if c = 5 then Some ''REJECTED''
      else if c = 6 then Some ''PREEMPTING''
      else if c = 7 then Some ''RECALLING''
      else if c = 8 then Some ''RECALLED''
      else if c = 9 then Some ''LOST''
      else None)"

definition handleNavigationStatus :: "viz \<Rightarrow> goal_status \<Rightarrow> viz" where
  "handleNavigationStatus s gs =
     (let statusName = (case statusMap (status gs) of Some n \<Rightarrow> n | None \<Rightarrow> ''UNKNOWN'');
          s1 = s\<lparr>navigationStatus := statusName\<rparr>
      in if status gs = 1 then
           updateStatus s1 ''connected''
             (helicopter @ '' Navigating... ('' @ statusName @ '')'')
         else if status gs = 3 then
           clearGoal (updateStatus s1 ''connected''
             (check_mark @ '' Goal Reached! ('' @ statusName @ '')''))
         else if status gs = 4 \<or> status gs = 5 then
           updateStatus s1 ''disconnected''
             (cross_mark @ '' Navigation Failed ('' @ statusName @ '')'')
         else
           (case goalPosition s1 of
              Some g \<Rightarrow> updateStatus s1 ''connected'' (stopwatch @ '' '' @ statusName)
            | None \<Rightarrow> s1))"

text \<open>The callback that \<open>subscribeNavigationStatus\<close> passes to \<open>subscribe\<close>.\<close>

definition status_callback :: "viz \<Rightarrow> status_message \<Rightarrow> viz" where
  "status_callback s message =
     (case status_list message of
        None \<Rightarrow> s
      | Some l \<Rightarrow>
          if length l > 0 then handleNavigationStatus s (l ! (length l - 1)) else s)"

text \<open>
  Everything the event loop can run on the object: the session's \<open>connection\<close>,
  \<open>error\<close> and \<open>close\<close> events (the first and the last with the socket state they
  report), the oldest pending reconnect timer firing (nothing happens when none is
  pending), a message on the status topic, and a call of \<open>disconnect\<close> by the page.
\<close>

datatype event =
    TransportOpen
  | TransportError
  | TransportClose
  | TimerFires
  | StatusMessage status_message
  | CallDisconnect

fun step :: "viz \<Rightarrow> event \<Rightarrow> viz" where
  "step s TransportOpen = on_connection (s\<lparr>ros := Some Open\<rparr>)"
| "step s TransportError = on_error s"
| "step s TransportClose = on_close (s\<lparr>ros := Some Closed\<rparr>)"
| "step s TimerFires =
     (case timers s of [] \<Rightarrow> s | d # ds \<Rightarrow> connectToROS (s\<lparr>timers := ds\<rparr>))"
| "step s (StatusMessage m) = status_callback s m"
| "step s CallDisconnect = disconnect s"

definition run :: "viz \<Rightarrow> event list \<Rightarrow> viz" where
  "run s es = foldl step s es"

text \<open>The object as the constructor leaves it: the fields' initial values, then
  \<open>init()\<close>, whose last effect on these fields is the call of \<open>connectToROS\<close>.\<close>

definition constructed :: viz where
  "constructed =
     connectToROS
       \<lparr>ros = None, rosCreated = 0, laserScanTopic = None, goalPublisher = None,
        cancelPublisher = None, pathSubscriber = None, statusSubscriber = None,
        navigationStatus = ''IDLE'', connectionStatus = ''disconnected'',
        statusBarColor = ''#FDB913'', statusBarText = ''Connecting to ROS...'',
        goalPosition = None, goalMarkerVisible = False, navControlsDisplay = ''none'',
        timers = [], statusLog = []\<rparr>"

text \<open>
  The object once the session has opened, and the same holding a goal: the goal fields as
  \<open>setGoalPosition\<close> stores them. The status message that \<open>setGoalPosition\<close>
  also shows is left out, so the status bar and the log are those of the open session.
\<close>

definition session_open :: viz where
  "session_open = step constructed TransportOpen"

definition holding_goal :: viz where
  "holding_goal =
     session_open\<lparr>goalPosition := Some (Fin 1, Fin 2), goalMarkerVisible := True,
       navControlsDisplay := ''block''\<rparr>"

text \<open>A status message whose list ends with the given code, and a stream of them.\<close>

definition status_msg :: "goal_status list \<Rightarrow> int \<Rightarrow> status_message" where
  "status_msg earlier c = \<lparr>status_list = Some (earlier @ [\<lparr>status = c\<rparr>])\<rparr>"

definition feed :: "viz \<Rightarrow> int list \<Rightarrow> viz" where
  "feed s cs = run s (map (\<lambda>c. StatusMessage (status_msg [] c)) cs)"

text \<open>The signals (status messages) sent to the indicator between two states.\<close>

definition signals_since :: "viz \<Rightarrow> viz \<Rightarrow> string list" where
  "signals_since s s' = map snd (drop (length (statusLog s)) (statusLog s'))"

definition navigating_signal :: string where
  "navigating_signal = helicopter @ '' Navigating... (ACTIVE)''"

definition goal_reached_signal :: string where
  "goal_reached_signal = check_mark @ '' Goal Reached! (SUCCEEDED)''"

definition connected_signal :: string where
  "connected_signal = check_mark @ '' Connected to ROS''"

definition navigation_failed_signal :: "string \<Rightarrow> string" where
  "navigation_failed_signal n = cross_mark @ '' Navigation Failed ('' @ n @ '')''"

section \<open>LaserScanVisualization: decoding a scan\<close>

record scan_data =
  ranges :: "jsnum list"
  angle_min :: jsnum
  angle_max :: jsnum
  angle_increment :: jsnum
  range_min :: jsnum
  range_max :: jsnum

text \<open>
  The loop of \<open>updateLaserScan\<close>, with its index and the two arrays it pushes to.
  \<open>positions.push(x, y, 0)\<close> and \<open>colors.push(red, green, blue)\<close> append three
  numbers each.
\<close>

function scan_loop :: "scan_data \<Rightarrow> nat \<Rightarrow> jsnum list \<Rightarrow> jsnum list \<Rightarrow> jsnum list \<times> jsnum list" where
  "scan_loop sd i positions colours =
     (if i < length (ranges sd) then
        (let range = ranges sd ! i in
         if isNaN range \<or> js_lt range (range_min sd) \<or> js_gt range (range_max sd) then
           scan_loop sd (i + 1) positions colours
         else
           (let angle = js_add (angle_min sd) (js_mul (Fin (real i)) (angle_increment sd));
                x = js_mul range (js_cos angle);
                y = js_mul range (js_sin angle);
                normalizedRange =
                  js_div (js_sub range (range_min sd)) (js_sub (range_max sd) (range_min sd));
                red = Fin 1;
                green = normalizedRange;
                blue = Fin 0
            in scan_loop sd (i + 1) (positions @ [x, y, Fin 0]) (colours @ [red, green, blue])))
      else (positions, colours))"
  by pat_completeness auto
termination
  by (relation "measure (\<lambda>(sd, i, positions, colours). length (ranges sd) - i)") auto

declare scan_loop.simps [simp del]

text \<open>
  \<open>updateLaserScan\<close> up to the two arrays handed to the geometry. Their conversion to
  \<open>Float32Array\<close> keeps the number of entries and keeps NaN.
\<close>

definition updateLaserScan :: "scan_data \<Rightarrow> jsnum list \<times> jsnum list" where
  "updateLaserScan sd = scan_loop sd 0 [] []"

text \<open>The claim's words about one reading, to compare the loop with.\<close>

definition reading_skipped :: "scan_data \<Rightarrow> nat \<Rightarrow> bool" where
  "reading_skipped sd i =
     (isNaN (ranges sd ! i) \<or> js_lt (ranges sd ! i) (range_min sd)
      \<or> js_gt (ranges sd ! i) (range_max sd))"

definition reading_angle :: "scan_data \<Rightarrow> nat \<Rightarrow> jsnum" where
  "reading_angle sd i = js_add (angle_min sd) (js_mul (Fin (real i)) (angle_increment sd))"

definition reading_position :: "scan_data \<Rightarrow> nat \<Rightarrow> jsnum list" where
  "reading_position sd i =
     [js_mul (ranges sd ! i) (js_cos (reading_angle sd i)),
      js_mul (ranges sd ! i) (js_sin (reading_angle sd i)),
      Fin 0]"

definition reading_colour :: "scan_data \<Rightarrow> nat \<Rightarrow> jsnum list" where
  "reading_colour sd i =
     [Fin 1,
      js_div (js_sub (ranges sd ! i) (range_min sd)) (js_sub (range_max sd) (range_min sd)),
      Fin 0]"

section \<open>CameraVisualization\<close>

type_synonym byte = "8 word"

text \<open>
  The \<open>data\<close> field of an image message: absent, a base64 string, or an array of bytes.
\<close>

datatype image_data = Absent | Base64 string | ByteArray "byte list"

record image_message =
  width :: nat
  height :: nat
  encoding :: string
  data :: image_data

datatype callback = CompressedCb nat | RawCb

text \<open>
  A \<open>ROSLIB.Topic\<close> object; \<open>ct_callback = None\<close> when it is not subscribed. The
  objects live in the list \<open>topics\<close> and \<open>cameraSubscriber\<close> refers to one by its
  index. Each call of \<open>subscribeCompressedImage\<close> creates a closure holding
  \<open>receivedMessage\<close> and the timeout; these are the entries of \<open>probes\<close>, and
  \<open>CompressedCb k\<close> is the subscription callback of closure \<open>k\<close>.
\<close>

record cam_topic =
  ct_name :: string
  ct_messageType :: string
  ct_callback :: "callback option"

record probe =
  receivedMessage :: bool
  timeoutPending :: bool

datatype handler_call = HandleCompressed | HandleRaw

text \<open>
  \<open>dispatched\<close> records the calls of the two image handlers in order;
  \<open>pendingImages\<close> holds the payloads given to an \<open>Image\<close> element, which the
  browser decodes and paints later.
\<close>

record cam =
  cameraTopic :: string
  cameraSubscriber :: "nat option"
  topics :: "cam_topic list"
  probes :: "probe list"
  canvasWidth :: nat
  canvasHeight :: nat
  canvasPixels :: "byte list"
  camStatus :: string
  camStatusColor :: string
  camStatusText :: string
  frameCount :: nat
  lastFrameTime :: nat
  fps :: nat
  dispatched :: "handler_call list"
  pendingImages :: "image_data list"

definition cam_updateStatus :: "cam \<Rightarrow> string \<Rightarrow> string \<Rightarrow> cam" where
  "cam_updateStatus s st message =
     s\<lparr>camStatus := st,
       camStatusColor := (case colors st of Some c \<Rightarrow> c | None \<Rightarrow> ''#FDB913''),
       camStatusText := message\<rparr>"

definition digit_char :: "nat \<Rightarrow> char" where
  "digit_char d = char_of (48 + d)"

function show_nat :: "nat \<Rightarrow> string" where
  "show_nat n = (if n < 10 then [digit_char n] else show_nat (n div 10) @ [digit_char (n mod 10)])"
  by pat_completeness auto
termination
  by (relation "measure id") auto

declare show_nat.simps [simp del]

text \<open>\<open>now\<close> is the value of \<open>Date.now()\<close>; \<open>Math.round\<close> rounds half up.\<close>

definition updateFPS :: "nat \<Rightarrow> cam \<Rightarrow> cam" where
  "updateFPS now s =
     (let s1 = s\<lparr>frameCount := frameCount s + 1\<rparr>;
          elapsed = int now - int (lastFrameTime s1)
      in if elapsed \<ge> 1000 then
           (let f = nat ((2 * (int (frameCount s1) * 1000) + elapsed) div (2 * elapsed));
                s2 = cam_updateStatus (s1\<lparr>fps := f\<rparr>) ''connected''
                       (check_mark @ '' Camera Connected ('' @ show_nat f @ '' FPS)'')
            in s2\<lparr>frameCount := 0, lastFrameTime := now\<rparr>)
         else s1)"

definition data_falsy :: "image_data \<Rightarrow> bool" where
  "data_falsy d = (case d of Absent \<Rightarrow> True | Base64 str \<Rightarrow> str = [] | ByteArray bs \<Rightarrow> False)"

definition data_length :: "image_data \<Rightarrow> nat" where
  "data_length d = (case d of Absent \<Rightarrow> 0 | Base64 str \<Rightarrow> length str | ByteArray bs \<Rightarrow> length bs)"

definition handleCompressedImage :: "nat \<Rightarrow> cam \<Rightarrow> image_message \<Rightarrow> cam" where
  "handleCompressedImage now s message =
     (let s1 = updateFPS now s
      in if data_falsy (data message) then s1
         else s1\<lparr>pendingImages := pendingImages s1 @ [data message]\<rparr>)"

subsection \<open>Raw images\<close>

text \<open>
  Typed arrays: a read past the end is \<open>undefined\<close> (\<open>None\<close>), a write past the end
  is ignored, and \<open>undefined\<close> stored into a \<open>Uint8ClampedArray\<close> becomes 0.
\<close>

definition ta_get :: "byte list \<Rightarrow> nat \<Rightarrow> byte option" where
  "ta_get xs i = (if i < length xs then Some (xs ! i) else None)"

definition ta_set :: "byte list \<Rightarrow> nat \<Rightarrow> byte option \<Rightarrow> byte list" where
  "ta_set xs i v =
     (if i < length xs then xs[i := (case v of Some b \<Rightarrow> b | None \<Rightarrow> 0)] else xs)"

function rgb8_loop :: "byte list \<Rightarrow> nat \<Rightarrow> byte list \<Rightarrow> byte list" where
  "rgb8_loop byteArray i img =
     (if i < length byteArray then
        (let idx = (i div 3) * 4;
             img1 = ta_set img idx (ta_get byteArray i);
             img2 = ta_set img1 (idx + 1) (ta_get byteArray (i + 1));
             img3 = ta_set img2 (idx + 2) (ta_get byteArray (i + 2));
             img4 = ta_set img3 (idx + 3) (Some 255)
         in rgb8_loop byteArray (i + 3) img4)
      else img)"
  by pat_completeness auto
termination
  by (relation "measure (\<lambda>(byteArray, i, img). length byteArray - i)") auto

declare rgb8_loop.simps [simp del]

function bgr8_loop :: "byte list \<Rightarrow> nat \<Rightarrow> byte list \<Rightarrow> byte list" where
  "bgr8_loop byteArray i img =
     (if i < length byteArray then
        (let idx = (i div 3) * 4;
             img1 = ta_set img idx (ta_get byteArray (i + 2));
             img2 = ta_set img1 (idx + 1) (ta_get byteArray (i + 1));
             img3 = ta_set img2 (idx + 2) (ta_get byteArray i);
             img4 = ta_set img3 (idx + 3) (Some 255)
         in bgr8_loop byteArray (i + 3) img4)
      else img)"
  by pat_completeness auto
termination
  by (relation "measure (\<lambda>(byteArray, i, img). length byteArray - i)") auto

declare bgr8_loop.simps [simp del]

function rgba8_loop :: "byte list \<Rightarrow> nat \<Rightarrow> byte list \<Rightarrow> byte list" where
  "rgba8_loop byteArray i img =
     (if i < length byteArray then
        rgba8_loop byteArray (i + 1) (ta_set img i (ta_get byteArray i))
      else img)"
  by pat_completeness auto
termination
  by (relation "measure (\<lambda>(byteArray, i, img). length byteArray - i)") auto

declare rgba8_loop.simps [simp del]

function bgra8_loop :: "byte list \<Rightarrow> nat \<Rightarrow> byte list \<Rightarrow> byte list" where
  "bgra8_loop byteArray i img =
     (if i < length byteArray then
        (let img1 = ta_set img i (ta_get byteArray (i + 2));
             img2 = ta_set img1 (i + 1) (ta_get byteArray (i + 1));
             img3 = ta_set img2 (i + 2) (ta_get byteArray i);
             img4 = ta_set img3 (i + 3) (ta_get byteArray (i + 3))
         in bgra8_loop byteArray (i + 4) img4)
      else img)"
  by pat_completeness auto
termination
  by (relation "measure (\<lambda>(byteArray, i, img). length byteArray - i)") auto

declare bgra8_loop.simps [simp del]

function mono8_loop :: "byte list \<Rightarrow> nat \<Rightarrow> byte list \<Rightarrow> byte list" where
  "mono8_loop byteArray i img =
     (if i < length byteArray then
        (let idx = i * 4;
             gray = ta_get byteArray i;
             img1 = ta_set img idx gray;
             img2 = ta_set img1 (idx + 1) gray;
             img3 = ta_set img2 (idx + 2) gray;
             img4 = ta_set img3 (idx + 3) (Some 255)
         in mono8_loop byteArray (i + 1) img4)
      else img)"
  by pat_completeness auto
termination
  by (relation "measure (\<lambda>(byteArray, i, img). length byteArray - i)") auto

declare mono8_loop.simps [simp del]

text \<open>The chain of encoding tests; \<open>None\<close> is the branch that warns and returns.\<close>

definition convert :: "string \<Rightarrow> byte list \<Rightarrow> byte list \<Rightarrow> byte list option" where
  "convert enc byteArray imageData =
     (if enc = ''rgb8'' then Some (rgb8_loop byteArray 0 imageData)
      else if enc = ''bgr8'' then Some (bgr8_loop byteArray 0 imageData)
      else if enc = ''rgba8'' then Some (rgba8_loop byteArray 0 imageData)
      else if enc = ''bgra8'' then Some (bgra8_loop byteArray 0 imageData)
      else if enc = ''mono8'' \<or> enc = ''grayscale'' then Some (mono8_loop byteArray 0 imageData)
      else None)"

text \<open>
  How a call of \<open>handleRawImage\<close> ends: the image was put on the canvas, one of the two
  early returns was taken, or a platform call threw (\<open>atob\<close> on malformed base64,
  \<open>createImageData\<close> on a zero width or height).
\<close>

datatype raw_outcome =
    Rendered
  | NoDataReturn
  | UnsupportedEncoding
  | InvalidCharacterError
  | IndexSizeError

text \<open>
  \<open>atob\<close> followed by the \<open>charCodeAt\<close> loop is the platform's base64 decoder; it is
  a parameter, \<open>None\<close> where it throws. \<open>set_canvas_size\<close> is the block that
  resizes the canvas when the message's size differs (assigning the canvas' width or height
  clears it); \<open>to_byte_array\<close> is the block that builds \<open>byteArray\<close>, reached only
  with data present.
\<close>

definition set_canvas_size :: "cam \<Rightarrow> nat \<Rightarrow> nat \<Rightarrow> cam" where
  "set_canvas_size s w h =
     (if canvasWidth s \<noteq> w \<or> canvasHeight s \<noteq> h
      then s\<lparr>canvasWidth := w, canvasHeight := h, canvasPixels := replicate (w * h * 4) 0\<rparr>
      else s)"

definition to_byte_array :: "(string \<Rightarrow> byte list option) \<Rightarrow> image_data \<Rightarrow> byte list option" where
  "to_byte_array atob d =
     (case d of
        Base64 str \<Rightarrow> atob str
      | ByteArray bs \<Rightarrow> Some bs
      | Absent \<Rightarrow> Some [])"

definition handleRawImage ::
  "(string \<Rightarrow> byte list option) \<Rightarrow> nat \<Rightarrow> cam \<Rightarrow> image_message \<Rightarrow> raw_outcome \<times> cam" where
  "handleRawImage atob now s message =
     (let s1 = updateFPS now s
      in if data_falsy (data message) \<or> data_length (data message) = 0 then (NoDataReturn, s1)
         else
           (let s2 = set_canvas_size s1 (width message) (height message)
            in case to_byte_array atob (data message) of
                 None \<Rightarrow> (InvalidCharacterError, s2)
               | Some byteArray \<Rightarrow>
                   if width message = 0 \<or> height message = 0 then (IndexSizeError, s2)
                   else
                     (case convert (encoding message) byteArray
                             (replicate (width message * height message * 4) 0) of
                        None \<Rightarrow> (UnsupportedEncoding, s2)
                      | Some imageData \<Rightarrow> (Rendered, s2\<lparr>canvasPixels := imageData\<rparr>))))"

subsection \<open>Subscribing, with the fallback from compressed to raw images\<close>

definition subscribeRawImage :: "cam \<Rightarrow> cam" where
  "subscribeRawImage s =
     (let s1 = cam_updateStatus s ''connecting'' ''Waiting for raw images...''
      in s1\<lparr>cameraSubscriber := Some (length (topics s1)),
            topics := topics s1 @
              [\<lparr>ct_name = cameraTopic s1, ct_messageType = ''sensor_msgs/Image'',
                ct_callback = Some RawCb\<rparr>]\<rparr>)"

definition subscribeCompressedImage :: "cam \<Rightarrow> cam" where
  "subscribeCompressedImage s =
     s\<lparr>cameraSubscriber := Some (length (topics s)),
       topics := topics s @
         [\<lparr>ct_name = cameraTopic s @ ''/compressed'',
           ct_messageType = ''sensor_msgs/CompressedImage'',
           ct_callback = Some (CompressedCb (length (probes s)))\<rparr>],
       probes := probes s @ [\<lparr>receivedMessage = False, timeoutPending = True\<rparr>]\<rparr>"

definition subscribeToCamera :: "cam \<Rightarrow> cam" where
  "subscribeToCamera s = subscribeCompressedImage s"

text \<open>\<open>this.cameraSubscriber.unsubscribe()\<close>, on whichever object the field holds.\<close>

definition unsubscribe_current :: "cam \<Rightarrow> cam" where
  "unsubscribe_current s =
     (case cameraSubscriber s of
        None \<Rightarrow> s
      | Some j \<Rightarrow> s\<lparr>topics := (topics s)[j := (topics s ! j)\<lparr>ct_callback := None\<rparr>]\<rparr>)"

text \<open>The body of the timeout set by closure \<open>k\<close>.\<close>

definition probe_timeout :: "nat \<Rightarrow> cam \<Rightarrow> cam" where
  "probe_timeout k s =
     (if \<not> receivedMessage (probes s ! k) then
        subscribeRawImage (unsubscribe_current
          (cam_updateStatus s ''connecting'' ''Trying raw image topic...''))
      else s)"

text \<open>The two subscription callbacks.\<close>

definition run_callback ::
  "(string \<Rightarrow> byte list option) \<Rightarrow> nat \<Rightarrow> image_message \<Rightarrow> cam \<Rightarrow> callback \<Rightarrow> cam" where
  "run_callback atob now message s cb =
     (case cb of
        CompressedCb k \<Rightarrow>
          handleCompressedImage now
            (s\<lparr>probes := (probes s)[k := (probes s ! k)\<lparr>receivedMessage := True,
                                                       timeoutPending := False\<rparr>],
               dispatched := dispatched s @ [HandleCompressed]\<rparr>)
            message
      | RawCb \<Rightarrow>
          snd (handleRawImage atob now (s\<lparr>dispatched := dispatched s @ [HandleRaw]\<rparr>) message))"

text \<open>
  The events of one session: a message arrives for a topic name at time \<open>now\<close> and
  is passed to every subscribed \<open>Topic\<close> object of that name, or the timeout of
  closure \<open>k\<close> fires. A timeout fires only while it is pending, and once.
\<close>

datatype cam_event = Incoming string nat image_message | ProbeTimeout nat

definition deliver ::
  "(string \<Rightarrow> byte list option) \<Rightarrow> string \<Rightarrow> nat \<Rightarrow> image_message \<Rightarrow> cam \<Rightarrow> cam_topic \<Rightarrow> cam" where
  "deliver atob name now message s t =
     (case ct_callback t of
        None \<Rightarrow> s
      | Some cb \<Rightarrow> if ct_name t = name then run_callback atob now message s cb else s)"

fun cam_step :: "(string \<Rightarrow> byte list option) \<Rightarrow> cam \<Rightarrow> cam_event \<Rightarrow> cam" where
  "cam_step atob s (Incoming name now message) =
     foldl (deliver atob name now message) s (topics s)"
| "cam_step atob s (ProbeTimeout k) =
     (if k < length (probes s) \<and> timeoutPending (probes s ! k) then
        probe_timeout k (s\<lparr>probes := (probes s)[k := (probes s ! k)\<lparr>timeoutPending := False\<rparr>]\<rparr>)
      else s)"

definition cam_run :: "(string \<Rightarrow> byte list option) \<Rightarrow> cam \<Rightarrow> cam_event list \<Rightarrow> cam" where
  "cam_run atob s es = foldl (cam_step atob) s es"

text \<open>
  The object when the session opens, before \<open>subscribeToCamera\<close>: the constructor's
  field values, an empty canvas of the given size, and no \<open>Topic\<close> object yet.
\<close>

definition cam_connected :: "string \<Rightarrow> nat \<Rightarrow> nat \<Rightarrow> nat \<Rightarrow> cam" where
  "cam_connected topicArg w h now =
     \<lparr>cameraTopic = (if topicArg = [] then ''/camera/color/image_raw'' else topicArg),
      cameraSubscriber = None, topics = [], probes = [],
      canvasWidth = w, canvasHeight = h, canvasPixels = replicate (w * h * 4) 0,
      camStatus = ''connected'', camStatusColor = ''#00FF00'',
      camStatusText = check_mark @ '' Camera Connected'',
      frameCount = 0, lastFrameTime = now, fps = 0,
      dispatched = [], pendingImages = []\<rparr>"

definition active_subscriptions :: "cam \<Rightarrow> cam_topic list" where
  "active_subscriptions s = filter (\<lambda>t. ct_callback t \<noteq> None) (topics s)"

definition compressed_arrival :: "cam \<Rightarrow> cam_event \<Rightarrow> bool" where
  "compressed_arrival s e =
     (case e of
        Incoming name now message \<Rightarrow> name = cameraTopic s @ ''/compressed''
      | ProbeTimeout k \<Rightarrow> False)"

text \<open>
  The two states of the fallback, for a camera topic \<open>c\<close> and a first call of
  \<open>subscribeCompressedImage\<close>: while probing, the only \<open>Topic\<close> object is the
  compressed one, subscribed, with its timeout pending and no compressed message seen;
  after the fallback, that object is unsubscribed, the raw one is the second object and
  is subscribed, and the timeout is no longer pending. In both, no compressed image has
  been handled.
\<close>

definition compressed_topic :: "string \<Rightarrow> cam_topic" where
  "compressed_topic c =
     \<lparr>ct_name = c @ ''/compressed'', ct_messageType = ''sensor_msgs/CompressedImage'',
      ct_callback = Some (CompressedCb 0)\<rparr>"

definition raw_topic :: "string \<Rightarrow> cam_topic" where
  "raw_topic c =
     \<lparr>ct_name = c, ct_messageType = ''sensor_msgs/Image'', ct_callback = Some RawCb\<rparr>"

definition probing :: "string \<Rightarrow> cam \<Rightarrow> bool" where
  "probing c s =
     (cameraTopic s = c \<and> topics s = [compressed_topic c]
      \<and> probes s = [\<lparr>receivedMessage = False, timeoutPending = True\<rparr>]
      \<and> cameraSubscriber s = Some 0
      \<and> filter (\<lambda>h. h = HandleCompressed) (dispatched s) = [])"

definition fallen_back :: "string \<Rightarrow> cam \<Rightarrow> bool" where
  "fallen_back c s =
     (cameraTopic s = c
      \<and> topics s = [(compressed_topic c)\<lparr>ct_callback := None\<rparr>, raw_topic c]
      \<and> probes s = [\<lparr>receivedMessage = False, timeoutPending = False\<rparr>]
      \<and> cameraSubscriber s = Some 1
      \<and> filter (\<lambda>h. h = HandleCompressed) (dispatched s) = [])"

section \<open>Sample inputs\<close>

text \<open>
  A scan with a NaN, two out-of-range readings and one reading on each bound, a scan whose
  two bounds are equal, and
  the byte payloads of a list of pixel colours in the two channel orders.
\<close>

definition sample_scan :: scan_data where
  "sample_scan = \<lparr>ranges = [NaN, Fin 1, Fin (1/2), Fin 5, Fin 3], angle_min = Fin 0,
     angle_max = Fin 0, angle_increment = Fin 0, range_min = Fin 1, range_max = Fin 3\<rparr>"

definition flat_scan :: scan_data where
  "flat_scan = \<lparr>ranges = [Fin 1], angle_min = Fin 0,
     angle_max = Fin 0, angle_increment = Fin 0, range_min = Fin 1, range_max = Fin 1\<rparr>"

definition rgb_bytes :: "(byte \<times> byte \<times> byte) list \<Rightarrow> byte list" where
  "rgb_bytes px = concat (map (\<lambda>(r, g, b). [r, g, b]) px)"

definition bgr_bytes :: "(byte \<times> byte \<times> byte) list \<Rightarrow> byte list" where
  "bgr_bytes px = concat (map (\<lambda>(r, g, b). [b, g, r]) px)"

text \<open>
  The encodings that \<open>convert\<close> handles with the bytes each pixel takes, and a camera
  object whose 1 x 1 canvas shows a frame.
\<close>

definition supported_encoding :: "string \<Rightarrow> bool" where
  "supported_encoding enc =
     (enc = ''rgb8'' \<or> enc = ''bgr8'' \<or> enc = ''rgba8'' \<or> enc = ''bgra8''
      \<or> enc = ''mono8'' \<or> enc = ''grayscale'')"

definition bytes_per_pixel :: "string \<Rightarrow> nat" where
  "bytes_per_pixel enc =
     (if enc = ''rgb8'' \<or> enc = ''bgr8'' then 3
      else if enc = ''rgba8'' \<or> enc = ''bgra8'' then 4
      else 1)"

definition showing_frame :: cam where
  "showing_frame = (cam_connected [] 1 1 0)\<lparr>canvasPixels := [1, 2, 3, 255]\<rparr>"

text \<open>
  A camera object just subscribed on the topic \<open>/cam\<close>, a raw one-pixel image and
  a compressed image message.
\<close>

definition probe_start :: cam where
  "probe_start = subscribeToCamera (cam_connected ''/cam'' 1 1 0)"

definition gray_pixel :: image_message where
  "gray_pixel = \<lparr>width = 1, height = 1, encoding = ''mono8'', data = ByteArray [7]\<rparr>"

definition jpeg_frame :: image_message where
  "jpeg_frame = \<lparr>width = 0, height = 0, encoding = [], data = Base64 ''AQID''\<rparr>"

section \<open>Properties\<close>

subsection \<open>Unfolding sets\<close>

lemmas nav_defs = status_callback_def status_msg_def handleNavigationStatus_def statusMap_def
  updateStatus_def clearGoal_def hideNavigationControls_def signals_since_def
  navigating_signal_def goal_reached_signal_def connected_signal_def navigation_failed_signal_def
  colors_def

lemmas conn_defs = on_connection_def on_error_def on_close_def connectToROS_def disconnect_def
  ros_close_def subscribeLaserScan_def setupGoalPublisher_def subscribePath_def
  subscribeNavigationStatus_def updateStatus_def colors_def

lemmas start_defs = holding_goal_def session_open_def constructed_def

subsection \<open>Navigation status machine\<close>

text \<open>
  Claim C1, as the spec states it, fails on the code. Feeding the codes 1 and 3 to an
  object that holds a goal sends three status signals, not two: \<open>clearGoal\<close>, which
  the SUCCEEDED branch calls after its own signal, ends with a call of \<open>updateStatus\<close>
  that resets the indicator to "Connected to ROS".
\<close>

theorem C1_counterexample:
  "goalPosition holding_goal = Some (Fin 1, Fin 2) \<and>
   signals_since holding_goal (feed holding_goal [1, 3])
     = [navigating_signal, goal_reached_signal, connected_signal] \<and>
   signals_since holding_goal (feed holding_goal [1, 3])
     \<noteq> [navigating_signal, goal_reached_signal]"
  by (simp add: nav_defs feed_def run_def start_defs)

text \<open>
  Claim C1, amended. For a status message whose last list entry has code 1 the client
  sends the "navigating" signal and keeps the held goal; for code 3 it sends "goal
  reached", then the "Connected to ROS" signal of \<open>clearGoal\<close>, and the held goal
  becomes none; for code 4 or 5 it sends "navigation failed" and keeps the goal. Feeding
  the codes 1, 3 yields the three signals navigating, goal reached, connected and clears
  the goal; feeding the code 4 yields the one signal navigation failed and keeps the goal
  (so it is still none when it was none).
\<close>

theorem C1_status_machine:
  "signals_since s (status_callback s (status_msg earlier 1)) = [navigating_signal]
   \<and> goalPosition (status_callback s (status_msg earlier 1)) = goalPosition s
   \<and> signals_since s (status_callback s (status_msg earlier 3))
       = [goal_reached_signal, connected_signal]
   \<and> goalPosition (status_callback s (status_msg earlier 3)) = None
   \<and> signals_since s (status_callback s (status_msg earlier 4))
       = [navigation_failed_signal ''ABORTED'']
   \<and> goalPosition (status_callback s (status_msg earlier 4)) = goalPosition s
   \<and> signals_since s (status_callback s (status_msg earlier 5))
       = [navigation_failed_signal ''REJECTED'']
   \<and> goalPosition (status_callback s (status_msg earlier 5)) = goalPosition s
   \<and> signals_since s (feed s [1, 3])
       = [navigating_signal, goal_reached_signal, connected_signal]
   \<and> goalPosition (feed s [1, 3]) = None
   \<and> signals_since s (feed s [4]) = [navigation_failed_signal ''ABORTED'']
   \<and> goalPosition (feed s [4]) = goalPosition s"
  by (simp add: nav_defs feed_def run_def)

theorem C1_status_machine_witness:
  "goalPosition holding_goal = Some (Fin 1, Fin 2)
   \<and> signals_since holding_goal (feed holding_goal [1, 3])
       = [navigating_signal, goal_reached_signal, connected_signal]
   \<and> goalPosition (feed holding_goal [1, 3]) = None
   \<and> goalPosition session_open = None
   \<and> signals_since session_open (feed session_open [4]) = [navigation_failed_signal ''ABORTED'']
   \<and> goalPosition (feed session_open [4]) = None"
proof -
  have g: "goalPosition holding_goal = Some (Fin 1, Fin 2)"
    by (simp add: holding_goal_def)
  have n: "goalPosition session_open = None"
    by (simp add: start_defs conn_defs)
  show ?thesis
    using C1_status_machine [of holding_goal "[]"] C1_status_machine [of session_open "[]"] g n
    by simp
qed

text \<open>
  Claim C9. Handling a status whose code is 4 (ABORTED) or 5 (REJECTED), directly or as the
  last entry of a status message, sets the stored \<open>connectionStatus\<close> to
  \<open>disconnected\<close> and the indicator's colour to the colour of a lost connection,
  while the transport session held in \<open>ros\<close> is untouched.
\<close>

theorem C9_failed_marks_disconnected:
  "connectionStatus (handleNavigationStatus s \<lparr>status = 4\<rparr>) = ''disconnected''
   \<and> statusBarColor (handleNavigationStatus s \<lparr>status = 4\<rparr>) = ''#FF0000''
   \<and> ros (handleNavigationStatus s \<lparr>status = 4\<rparr>) = ros s
   \<and> connectionStatus (handleNavigationStatus s \<lparr>status = 5\<rparr>) = ''disconnected''
   \<and> statusBarColor (handleNavigationStatus s \<lparr>status = 5\<rparr>) = ''#FF0000''
   \<and> ros (handleNavigationStatus s \<lparr>status = 5\<rparr>) = ros s
   \<and> connectionStatus (step s (StatusMessage (status_msg earlier 4))) = ''disconnected''
   \<and> statusBarColor (step s (StatusMessage (status_msg earlier 4))) = ''#FF0000''
   \<and> ros (step s (StatusMessage (status_msg earlier 4))) = ros s
   \<and> connectionStatus (step s (StatusMessage (status_msg earlier 5))) = ''disconnected''
   \<and> statusBarColor (step s (StatusMessage (status_msg earlier 5))) = ''#FF0000''
   \<and> ros (step s (StatusMessage (status_msg earlier 5))) = ros s"
  by (simp add: nav_defs)

theorem C9_failed_marks_disconnected_witness:
  "ros session_open = Some Open
   \<and> connectionStatus session_open = ''connected''
   \<and> connectionStatus (step session_open (StatusMessage (status_msg [] 4))) = ''disconnected''
   \<and> statusBarColor (step session_open (StatusMessage (status_msg [] 4))) = ''#FF0000''
   \<and> ros (step session_open (StatusMessage (status_msg [] 4))) = Some Open"
proof -
  have o: "ros session_open = Some Open" "connectionStatus session_open = ''connected''"
    by (simp_all add: start_defs conn_defs)
  show ?thesis
    using C9_failed_marks_disconnected [of session_open "[]"] o by simp
qed

text \<open>
  Claim C10. A status message without a status list, or with an empty one, changes
  nothing: the callback returns the state it was given, so the navigation status, the
  held goal, the connection status and the log of signals are as before.
\<close>

theorem C10_empty_status_list_ignored:
  "status_callback s \<lparr>status_list = None\<rparr> = s
   \<and> status_callback s \<lparr>status_list = Some []\<rparr> = s
   \<and> run s [StatusMessage \<lparr>status_list = None\<rparr>, StatusMessage \<lparr>status_list = Some []\<rparr>] = s"
  by (simp add: status_callback_def run_def)

theorem C10_empty_status_list_ignored_witness:
  "status_callback holding_goal \<lparr>status_list = None\<rparr> = holding_goal
   \<and> status_callback holding_goal \<lparr>status_list = Some []\<rparr> = holding_goal
   \<and> navigationStatus (status_callback holding_goal \<lparr>status_list = Some []\<rparr>) = ''IDLE''
   \<and> goalPosition (status_callback holding_goal \<lparr>status_list = Some []\<rparr>) = Some (Fin 1, Fin 2)
   \<and> connectionStatus (status_callback holding_goal \<lparr>status_list = Some []\<rparr>) = ''connected''"
proof -
  have h: "navigationStatus holding_goal = ''IDLE''"
    "goalPosition holding_goal = Some (Fin 1, Fin 2)"
    "connectionStatus holding_goal = ''connected''"
    by (simp_all add: start_defs conn_defs)
  show ?thesis
    using C10_empty_status_list_ignored [of holding_goal] h by simp
qed

subsection \<open>Connection lifecycle\<close>

text \<open>
  Claim C7, as the spec states it, fails on the code. \<open>disconnect\<close> only unsubscribes
  the scan topic and closes the session; the handle of the reconnect timer is never kept,
  so a pending timer survives the call and its firing opens a new session. The same
  happens when the \<open>close\<close> event caused by the teardown itself arrives.
\<close>

theorem C7_counterexample:
  "rosCreated session_open = 1
   \<and> timers (run session_open [TransportClose, CallDisconnect]) = [3000]
   \<and> rosCreated (run session_open [TransportClose, CallDisconnect, TimerFires]) = 2
   \<and> ros (run session_open [TransportClose, CallDisconnect, TimerFires]) = Some Connecting
   \<and> timers (run session_open [CallDisconnect, TransportClose]) = [3000]
   \<and> rosCreated (run session_open [CallDisconnect, TransportClose, TimerFires]) = 2"
  by (simp add: run_def start_defs conn_defs)

text \<open>
  Claim C7, amended. A caller-initiated \<open>disconnect\<close> unsubscribes the laser-scan
  topic (when there is one) and asks the transport session (when there is one) to close,
  and changes nothing else; in particular it cancels nothing: the pending reconnect
  timers and the number of sessions created are as before the call; the \<open>close\<close>
  event that follows schedules one more reconnect after 3000 ms, and the next timer to
  fire calls \<open>connectToROS\<close>, which creates a new session.
\<close>

theorem C7_disconnect_keeps_timers:
  "disconnect s =
     s\<lparr>laserScanTopic := map_option (\<lambda>t. t\<lparr>subscribed := False\<rparr>) (laserScanTopic s),
       ros := map_option ros_close (ros s)\<rparr>
   \<and> laserScanTopic (disconnect s)
       = map_option (\<lambda>t. t\<lparr>subscribed := False\<rparr>) (laserScanTopic s)
   \<and> ros (disconnect s) = map_option ros_close (ros s)
   \<and> ros_close Open = Closing \<and> ros_close Connecting = Closing
   \<and> ros_close Closing = Closing \<and> ros_close Closed = Closed
   \<and> timers (disconnect s) = timers s
   \<and> rosCreated (disconnect s) = rosCreated s
   \<and> timers (run s [CallDisconnect, TransportClose]) = timers s @ [3000]
   \<and> rosCreated (run s [CallDisconnect, TransportClose, TimerFires]) = Suc (rosCreated s)
   \<and> ros (run s [CallDisconnect, TransportClose, TimerFires]) = Some Connecting"
proof -
  have d: "disconnect s =
     s\<lparr>laserScanTopic := map_option (\<lambda>t. t\<lparr>subscribed := False\<rparr>) (laserScanTopic s),
       ros := map_option ros_close (ros s)\<rparr>"
    by (cases "laserScanTopic s"; cases "ros s") (simp_all add: disconnect_def)
  have c: "ros_close Open = Closing \<and> ros_close Connecting = Closing
     \<and> ros_close Closing = Closing \<and> ros_close Closed = Closed"
    by (simp add: ros_close_def)
  have r: "timers (run s [CallDisconnect, TransportClose]) = timers s @ [3000]
     \<and> rosCreated (run s [CallDisconnect, TransportClose, TimerFires]) = Suc (rosCreated s)
     \<and> ros (run s [CallDisconnect, TransportClose, TimerFires]) = Some Connecting"
    by (simp add: run_def d on_close_def connectToROS_def updateStatus_def Let_def
        split: list.splits)
  show ?thesis
    using c r by (simp add: d)
qed

theorem C7_disconnect_keeps_timers_witness:
  "timers (disconnect (step session_open TransportClose)) = [3000]
   \<and> rosCreated (run (step session_open TransportClose)
         [CallDisconnect, TransportClose, TimerFires]) = 2
   \<and> laserScanTopic session_open
       = Some \<lparr>topic_name = ''/world'', messageType = ''sensor_msgs/LaserScan'',
               subscribed = True\<rparr>
   \<and> ros session_open = Some Open
   \<and> laserScanTopic (disconnect session_open)
       = Some \<lparr>topic_name = ''/world'', messageType = ''sensor_msgs/LaserScan'',
               subscribed = False\<rparr>
   \<and> ros (disconnect session_open) = Some Closing
   \<and> timers (disconnect session_open) = []
   \<and> rosCreated (run session_open [CallDisconnect, TransportClose, TimerFires]) = 2"
proof -
  have t: "timers (step session_open TransportClose) = [3000]"
     "rosCreated (step session_open TransportClose) = 1"
    by (simp_all add: start_defs conn_defs)
  have o: "laserScanTopic session_open
       = Some \<lparr>topic_name = ''/world'', messageType = ''sensor_msgs/LaserScan'',
               subscribed = True\<rparr>"
    "ros session_open = Some Open" "timers session_open = []" "rosCreated session_open = 1"
    by (simp_all add: start_defs conn_defs)
  have a: "timers (disconnect (step session_open TransportClose)) = [3000]
   \<and> rosCreated (run (step session_open TransportClose)
         [CallDisconnect, TransportClose, TimerFires]) = 2"
    using C7_disconnect_keeps_timers [of "step session_open TransportClose"] t by simp
  have b: "laserScanTopic (disconnect session_open)
       = Some \<lparr>topic_name = ''/world'', messageType = ''sensor_msgs/LaserScan'',
               subscribed = False\<rparr>
   \<and> ros (disconnect session_open) = Some Closing
   \<and> timers (disconnect session_open) = []
   \<and> rosCreated (run session_open [CallDisconnect, TransportClose, TimerFires]) = 2"
    using C7_disconnect_keeps_timers [of session_open] o by simp
  show ?thesis
    using a b o by simp
qed

text \<open>
  Claim C8, as the spec states it, fails on the code. The handler of the \<open>error\<close>
  event only reports the status; it schedules no reconnect. Only the handler of the
  \<open>close\<close> event does.
\<close>

theorem C8_counterexample:
  "timers session_open = []
   \<and> connectionStatus (step session_open TransportError) = ''disconnected''
   \<and> timers (step session_open TransportError) = []
   \<and> timers (step session_open TransportClose) = [3000]"
  by (simp add: start_defs conn_defs)

text \<open>
  Claim C8, amended. A transport-error event and a transport-close event both set the
  status to \<open>disconnected\<close>. The close event schedules exactly one reconnect attempt
  after 3000 ms; the error event schedules none and leaves the pending timers as they
  were. Neither creates a session by itself.
\<close>

theorem C8_error_and_close:
  "connectionStatus (step s TransportError) = ''disconnected''
   \<and> connectionStatus (step s TransportClose) = ''disconnected''
   \<and> timers (step s TransportError) = timers s
   \<and> rosCreated (step s TransportError) = rosCreated s
   \<and> timers (step s TransportClose) = timers s @ [3000]
   \<and> rosCreated (step s TransportClose) = rosCreated s"
  by (simp add: conn_defs)

theorem C8_error_and_close_witness:
  "connectionStatus (step session_open TransportError) = ''disconnected''
   \<and> connectionStatus (step session_open TransportClose) = ''disconnected''
   \<and> timers (step session_open TransportError) = []
   \<and> timers (step session_open TransportClose) = [3000]"
proof -
  have t: "timers session_open = []"
    by (simp add: start_defs conn_defs)
  show ?thesis
    using C8_error_and_close [of session_open] t by simp
qed

subsection \<open>Scan decoding\<close>

lemma scan_loop_unfold:
  "i \<le> length (ranges sd) \<Longrightarrow>
   scan_loop sd i ps cs =
     (ps @ concat (map (\<lambda>j. if reading_skipped sd j then [] else reading_position sd j)
                    [i..<length (ranges sd)]),
      cs @ concat (map (\<lambda>j. if reading_skipped sd j then [] else reading_colour sd j)
                    [i..<length (ranges sd)]))"
proof (induction sd i ps cs rule: scan_loop.induct)
  case (1 sd i positions colours)
  show ?case
  proof (cases "i < length (ranges sd)")
    case False
    with "1.prems" show ?thesis by (subst scan_loop.simps) simp
  next
    case True
    then have up: "[i..<length (ranges sd)] = i # [Suc i..<length (ranges sd)]"
      by (simp add: upt_conv_Cons)
    show ?thesis
    proof (cases "reading_skipped sd i")
      case sk: True
      then have c: "isNaN (ranges sd ! i) \<or> js_lt (ranges sd ! i) (range_min sd)
                 \<or> js_gt (ranges sd ! i) (range_max sd)"
        by (simp add: reading_skipped_def)
      have "scan_loop sd i positions colours = scan_loop sd (i + 1) positions colours"
        using True c by (subst scan_loop.simps) (simp add: Let_def)
      also have "\<dots> = (positions @ concat (map (\<lambda>j. if reading_skipped sd j then [] else reading_position sd j)
                    [i + 1..<length (ranges sd)]),
      colours @ concat (map (\<lambda>j. if reading_skipped sd j then [] else reading_colour sd j)
                    [i + 1..<length (ranges sd)]))"
        using "1.IH"(1) [OF True refl c] True by simp
      finally show ?thesis using sk up by simp
    next
      case nsk: False
      then have c: "\<not> (isNaN (ranges sd ! i) \<or> js_lt (ranges sd ! i) (range_min sd)
                 \<or> js_gt (ranges sd ! i) (range_max sd))"
        by (simp add: reading_skipped_def)
      have "scan_loop sd i positions colours =
        scan_loop sd (i + 1) (positions @ reading_position sd i) (colours @ reading_colour sd i)"
        using True c by (subst scan_loop.simps)
          (simp add: Let_def reading_position_def reading_colour_def reading_angle_def)
      also have "\<dots> = ((positions @ reading_position sd i) @ concat (map (\<lambda>j. if reading_skipped sd j then [] else reading_position sd j)
                    [i + 1..<length (ranges sd)]),
      (colours @ reading_colour sd i) @ concat (map (\<lambda>j. if reading_skipped sd j then [] else reading_colour sd j)
                    [i + 1..<length (ranges sd)]))"
        using "1.IH"(2) [OF True refl c refl refl refl refl refl refl refl] True
        by (simp add: reading_position_def reading_colour_def reading_angle_def)
      finally show ?thesis using nsk up by simp
    qed
  qed
qed

text \<open>
  Claim C2. The two arrays that \<open>updateLaserScan\<close> builds are the concatenation, over
  the indices of \<open>ranges\<close> in order, of nothing for a reading that is NaN, below
  \<open>range_min\<close> or above \<open>range_max\<close>, and of one position
  \<open>(range * cos angle, range * sin angle, 0)\<close> with
  \<open>angle = angle_min + i * angle_increment\<close>, respectively one colour, for every other
  reading.
\<close>

theorem C2_scan_decoding:
  "updateLaserScan sd =
     (concat (map (\<lambda>i. if reading_skipped sd i then [] else reading_position sd i)
                  [0..<length (ranges sd)]),
      concat (map (\<lambda>i. if reading_skipped sd i then [] else reading_colour sd i)
                  [0..<length (ranges sd)]))"
  unfolding updateLaserScan_def by (simp add: scan_loop_unfold)

theorem C2_scan_decoding_witness:
  "updateLaserScan sample_scan =
     ([Fin 1, Fin 0, Fin 0, Fin 3, Fin 0, Fin 0], [Fin 1, Fin 0, Fin 0, Fin 1, Fin 1, Fin 0])"
  using C2_scan_decoding [of sample_scan]
  by (simp add: sample_scan_def reading_skipped_def reading_position_def reading_colour_def
      reading_angle_def js_gt_def js_sub_def upt_rec)

lemma equal_bounds_colour:
  assumes "range_max sd = range_min sd" and "\<not> reading_skipped sd i"
  shows "reading_colour sd i = [Fin 1, NaN, Fin 0]"
proof -
  have "js_div (js_sub r m) (js_sub m m) = NaN"
    if "\<not> isNaN r" "\<not> js_lt r m" "\<not> js_lt m r" for r m
    using that by (cases r; cases m) (simp_all add: js_sub_def signed_inf_def)
  then show ?thesis
    using assms by (simp add: reading_colour_def reading_skipped_def js_gt_def)
qed

text \<open>
  Claim C3 does not hold of the code: there is no guard for equal bounds. When
  \<open>range_max\<close> equals \<open>range_min\<close>, the green channel of every retained reading
  is the quotient of zero by zero, that is NaN, and the colour pushed is (1, NaN, 0).
\<close>

theorem C3_equal_bounds_give_NaN:
  assumes "range_max sd = range_min sd"
  shows "snd (updateLaserScan sd) =
     concat (map (\<lambda>i. if reading_skipped sd i then [] else [Fin 1, NaN, Fin 0])
               [0..<length (ranges sd)])"
proof -
  have "(if reading_skipped sd i then [] else reading_colour sd i) =
        (if reading_skipped sd i then [] else [Fin 1, NaN, Fin 0])" for i
    using equal_bounds_colour [OF assms] by simp
  then show ?thesis
    unfolding updateLaserScan_def by (simp add: scan_loop_unfold)
qed

theorem C3_equal_bounds_give_NaN_witness:
  "range_max flat_scan = range_min flat_scan \<and>
   updateLaserScan flat_scan = ([Fin 1, Fin 0, Fin 0], [Fin 1, NaN, Fin 0])"
proof -
  have b: "range_max flat_scan = range_min flat_scan"
    by (simp add: flat_scan_def)
  have p: "fst (updateLaserScan flat_scan) = [Fin 1, Fin 0, Fin 0]"
    by (simp add: updateLaserScan_def scan_loop.simps flat_scan_def js_gt_def js_sub_def
        signed_inf_def Let_def)
  have c: "snd (updateLaserScan flat_scan) = [Fin 1, NaN, Fin 0]"
    using C3_equal_bounds_give_NaN [OF b]
    by (simp add: flat_scan_def reading_skipped_def js_gt_def)
  show ?thesis
    using b p c by (simp add: prod_eq_iff)
qed


subsection \<open>Raw image decoding\<close>

lemma length_rgb_bytes: "length (rgb_bytes px) = 3 * length px"
  by (induction px) (auto simp: rgb_bytes_def)

lemma length_bgr_bytes: "length (bgr_bytes px) = 3 * length px"
  by (induction px) (auto simp: bgr_bytes_def)

lemma rgb_bytes_Cons: "rgb_bytes ((r, g, b) # px) = r # g # b # rgb_bytes px"
  by (simp add: rgb_bytes_def)

lemma bgr_bytes_Cons: "bgr_bytes ((r, g, b) # px) = b # g # r # bgr_bytes px"
  by (simp add: bgr_bytes_def)

lemma nth_rgb_bgr:
  "k < length px \<Longrightarrow>
     rgb_bytes px ! (3 * k) = bgr_bytes px ! (3 * k + 2)
   \<and> rgb_bytes px ! (3 * k + 1) = bgr_bytes px ! (3 * k + 1)
   \<and> rgb_bytes px ! (3 * k + 2) = bgr_bytes px ! (3 * k)"
proof (induction px arbitrary: k)
  case Nil
  then show ?case by simp
next
  case (Cons p px)
  obtain r g b where p: "p = (r, g, b)" by (cases p) auto
  show ?case
  proof (cases k)
    case 0
    then show ?thesis by (simp add: p rgb_bytes_Cons bgr_bytes_Cons)
  next
    case (Suc j)
    then have j: "j < length px" using Cons.prems by simp
    have e: "3 * Suc j = Suc (Suc (Suc (3 * j)))" by simp
    show ?thesis
      using Cons.IH [OF j] by (simp add: p Suc rgb_bytes_Cons bgr_bytes_Cons)
  qed
qed

lemma ta_get_rgb_bgr:
  "ta_get (rgb_bytes px) (3 * k) = ta_get (bgr_bytes px) (3 * k + 2)
   \<and> ta_get (rgb_bytes px) (3 * k + 1) = ta_get (bgr_bytes px) (3 * k + 1)
   \<and> ta_get (rgb_bytes px) (3 * k + 2) = ta_get (bgr_bytes px) (3 * k)"
proof (cases "k < length px")
  case True
  then show ?thesis
    using nth_rgb_bgr [OF True] by (simp add: ta_get_def length_rgb_bytes length_bgr_bytes)
next
  case False
  then show ?thesis by (simp add: ta_get_def length_rgb_bytes length_bgr_bytes)
qed

lemma rgb8_loop_bgr8_loop:
  "rgb8_loop (rgb_bytes px) (3 * k) img = bgr8_loop (bgr_bytes px) (3 * k) img"
proof (induction "length px - k" arbitrary: k img)
  case 0
  then have "\<not> 3 * k < 3 * length px" by simp
  then show ?case
    by (subst rgb8_loop.simps, subst bgr8_loop.simps)
       (simp add: length_rgb_bytes length_bgr_bytes)
next
  case (Suc n)
  then have lt: "3 * k < 3 * length px" by simp
  have n: "n = length px - Suc k" using Suc.hyps(2) by simp
  have s: "3 * k + 3 = 3 * Suc k" by simp
  show ?case
    apply (subst rgb8_loop.simps)
    apply (subst bgr8_loop.simps)
    using lt Suc.hyps(1) [OF n] ta_get_rgb_bgr [of px k]
    apply (simp add: length_rgb_bytes length_bgr_bytes Let_def s del: mult_Suc_right)
    done
qed

lemma convert_bgr8_rgb8:
  "convert ''bgr8'' (bgr_bytes px) img = convert ''rgb8'' (rgb_bytes px) img"
  using rgb8_loop_bgr8_loop [of px 0 img] by (simp add: convert_def)

lemma convert_rgb8: "convert ''rgb8'' bs img = Some (rgb8_loop bs 0 img)"
  by (simp add: convert_def)

lemma convert_bgr8: "convert ''bgr8'' bs img = Some (bgr8_loop bs 0 img)"
  by (simp add: convert_def)

text \<open>
  Claim C5. For every list of pixel colours, handling a raw image tagged \<open>bgr8\<close>
  whose bytes are the colours with blue first gives the same outcome and the same canvas
  (and so the same RGBA buffer) as handling the image tagged \<open>rgb8\<close> whose bytes are
  the colours with red first, whatever the declared size and the state before.
\<close>

theorem C5_bgr8_rgb8_same_output:
  "handleRawImage atob now s
     \<lparr>width = w, height = h, encoding = ''bgr8'', data = ByteArray (bgr_bytes px)\<rparr>
   = handleRawImage atob now s
     \<lparr>width = w, height = h, encoding = ''rgb8'', data = ByteArray (rgb_bytes px)\<rparr>"
proof -
  have e: "bgr8_loop (bgr_bytes px) 0 img = rgb8_loop (rgb_bytes px) 0 img" for img
    using rgb8_loop_bgr8_loop [of px 0 img] by simp
  have l: "(bgr_bytes px = []) = (px = [])" "(rgb_bytes px = []) = (px = [])"
    using length_rgb_bytes [of px] length_bgr_bytes [of px] by auto
  show ?thesis
    unfolding handleRawImage_def Let_def
    by (simp add: convert_rgb8 convert_bgr8 e l data_falsy_def data_length_def
        to_byte_array_def)
qed

theorem C5_bgr8_rgb8_same_output_witness:
  "handleRawImage (\<lambda>x. None) 0 (cam_connected [] 1 1 0)
     \<lparr>width = 2, height = 1, encoding = ''bgr8'', data = ByteArray [3, 2, 1, 6, 5, 4]\<rparr>
   = handleRawImage (\<lambda>x. None) 0 (cam_connected [] 1 1 0)
     \<lparr>width = 2, height = 1, encoding = ''rgb8'', data = ByteArray [1, 2, 3, 4, 5, 6]\<rparr>
   \<and> fst (handleRawImage (\<lambda>x. None) 0 (cam_connected [] 1 1 0)
     \<lparr>width = 2, height = 1, encoding = ''rgb8'', data = ByteArray [1, 2, 3, 4, 5, 6]\<rparr>) = Rendered
   \<and> canvasPixels (snd (handleRawImage (\<lambda>x. None) 0 (cam_connected [] 1 1 0)
     \<lparr>width = 2, height = 1, encoding = ''rgb8'', data = ByteArray [1, 2, 3, 4, 5, 6]\<rparr>))
      = [1, 2, 3, 255, 4, 5, 6, 255]"
proof -
  have r: "rgb8_loop [1, 2, 3, 4, 5, 6] 0 (replicate 8 0) = [1, 2, 3, 255, 4, 5, 6, 255]"
    by code_simp
  have c: "fst (handleRawImage (\<lambda>x. None) 0 (cam_connected [] 1 1 0)
     \<lparr>width = 2, height = 1, encoding = ''rgb8'', data = ByteArray [1, 2, 3, 4, 5, 6]\<rparr>) = Rendered
   \<and> canvasPixels (snd (handleRawImage (\<lambda>x. None) 0 (cam_connected [] 1 1 0)
     \<lparr>width = 2, height = 1, encoding = ''rgb8'', data = ByteArray [1, 2, 3, 4, 5, 6]\<rparr>))
      = [1, 2, 3, 255, 4, 5, 6, 255]"
    unfolding handleRawImage_def Let_def
    by (simp add: convert_rgb8 r data_falsy_def data_length_def to_byte_array_def)
  show ?thesis
    using C5_bgr8_rgb8_same_output [of "\<lambda>x. None" 0 "cam_connected [] 1 1 0" 2 1
        "[(1, 2, 3), (4, 5, 6)]"] c
    by (simp add: rgb_bytes_def bgr_bytes_def)
qed

lemma length_ta_set: "length (ta_set xs i v) = length xs"
  by (simp add: ta_set_def)

lemma length_rgb8_loop: "length (rgb8_loop bs i img) = length img"
proof (induction "length bs - i" arbitrary: i img rule: less_induct)
  case less
  show ?case
  proof (cases "i < length bs")
    case True
    then have "length bs - (i + 3) < length bs - i" by simp
    from less [OF this] show ?thesis
      by (subst rgb8_loop.simps) (simp add: True Let_def length_ta_set)
  next
    case False
    then show ?thesis by (subst rgb8_loop.simps) simp
  qed
qed

lemma length_bgr8_loop: "length (bgr8_loop bs i img) = length img"
proof (induction "length bs - i" arbitrary: i img rule: less_induct)
  case less
  show ?case
  proof (cases "i < length bs")
    case True
    then have "length bs - (i + 3) < length bs - i" by simp
    from less [OF this] show ?thesis
      by (subst bgr8_loop.simps) (simp add: True Let_def length_ta_set)
  next
    case False
    then show ?thesis by (subst bgr8_loop.simps) simp
  qed
qed

lemma length_rgba8_loop: "length (rgba8_loop bs i img) = length img"
proof (induction "length bs - i" arbitrary: i img rule: less_induct)
  case less
  show ?case
  proof (cases "i < length bs")
    case True
    then have "length bs - (i + 1) < length bs - i" by simp
    from less [OF this] show ?thesis
      by (subst rgba8_loop.simps) (simp add: True Let_def length_ta_set)
  next
    case False
    then show ?thesis by (subst rgba8_loop.simps) simp
  qed
qed

lemma length_bgra8_loop: "length (bgra8_loop bs i img) = length img"
proof (induction "length bs - i" arbitrary: i img rule: less_induct)
  case less
  show ?case
  proof (cases "i < length bs")
    case True
    then have "length bs - (i + 4) < length bs - i" by simp
    from less [OF this] show ?thesis
      by (subst bgra8_loop.simps) (simp add: True Let_def length_ta_set)
  next
    case False
    then show ?thesis by (subst bgra8_loop.simps) simp
  qed
qed

lemma length_mono8_loop: "length (mono8_loop bs i img) = length img"
proof (induction "length bs - i" arbitrary: i img rule: less_induct)
  case less
  show ?case
  proof (cases "i < length bs")
    case True
    then have "length bs - (i + 1) < length bs - i" by simp
    from less [OF this] show ?thesis
      by (subst mono8_loop.simps) (simp add: True Let_def length_ta_set)
  next
    case False
    then show ?thesis by (subst mono8_loop.simps) simp
  qed
qed

lemma convert_length_aux:
  "(case convert enc bs img of None \<Rightarrow> True | Some r \<Rightarrow> length r = length img)"
  by (simp add: convert_def length_rgb8_loop length_bgr8_loop length_rgba8_loop
      length_bgra8_loop length_mono8_loop)

lemma convert_length: "convert enc bs img = Some r \<Longrightarrow> length r = length img"
  using convert_length_aux [where enc = enc and bs = bs and img = img] by simp

lemma convert_supported: "(convert enc bs img \<noteq> None) = supported_encoding enc"
  by (simp add: convert_def supported_encoding_def)

lemma set_canvas_size_fields:
  "canvasWidth (set_canvas_size s w h) = w"
  "canvasHeight (set_canvas_size s w h) = h"
  by (simp_all add: set_canvas_size_def)

lemma handleRawImage_rendered:
  assumes "\<not> data_falsy (data m)" and "data_length (data m) \<noteq> 0"
    and "to_byte_array atob (data m) = Some bs"
    and "width m \<noteq> 0" and "height m \<noteq> 0"
    and "convert (encoding m) bs (replicate (width m * height m * 4) 0) = Some r"
  shows "handleRawImage atob now s m =
     (Rendered, (set_canvas_size (updateFPS now s) (width m) (height m))\<lparr>canvasPixels := r\<rparr>)"
  using assms by (simp add: handleRawImage_def Let_def)

lemma handleRawImage_not_rendered:
  assumes "data_falsy (data m) \<or> data_length (data m) = 0
           \<or> to_byte_array atob (data m) = None \<or> width m = 0 \<or> height m = 0
           \<or> convert (encoding m) (the (to_byte_array atob (data m)))
                 (replicate (width m * height m * 4) 0) = None"
  shows "fst (handleRawImage atob now s m) \<noteq> Rendered"
proof (cases "data_falsy (data m) \<or> data_length (data m) = 0")
  case True
  then show ?thesis by (simp add: handleRawImage_def Let_def)
next
  case nd: False
  show ?thesis
  proof (cases "to_byte_array atob (data m)")
    case None
    then show ?thesis using nd by (simp add: handleRawImage_def Let_def)
  next
    case (Some bs)
    show ?thesis
    proof (cases "width m = 0 \<or> height m = 0")
      case True
      then show ?thesis using nd Some by (simp add: handleRawImage_def Let_def)
    next
      case False
      then have "convert (encoding m) bs (replicate (width m * height m * 4) 0) = None"
        using assms nd Some by simp
      then show ?thesis using nd Some False by (simp add: handleRawImage_def Let_def)
    qed
  qed
qed

text \<open>
  Claim C4, amended. \<open>handleRawImage\<close> never compares the length of the payload with
  the declared width, height and encoding. It puts an image on the canvas exactly when the
  data is present and non-empty, the base64 decoder (for a string) does not throw, width
  and height are not 0 and the encoding is one of the six supported tags; and whenever it
  does, the canvas has the declared size and receives the full buffer of
  \<open>width * height * 4\<close> bytes that the conversion loop filled from the payload,
  whatever the payload's length.
\<close>

theorem C4_no_length_check:
  "(fst (handleRawImage atob now s m) = Rendered)
     = (\<not> data_falsy (data m) \<and> data_length (data m) \<noteq> 0
        \<and> to_byte_array atob (data m) \<noteq> None \<and> width m \<noteq> 0 \<and> height m \<noteq> 0
        \<and> supported_encoding (encoding m))
   \<and> (fst (handleRawImage atob now s m) = Rendered \<longrightarrow>
        canvasWidth (snd (handleRawImage atob now s m)) = width m
      \<and> canvasHeight (snd (handleRawImage atob now s m)) = height m
      \<and> length (canvasPixels (snd (handleRawImage atob now s m))) = width m * height m * 4
      \<and> Some (canvasPixels (snd (handleRawImage atob now s m)))
          = convert (encoding m) (the (to_byte_array atob (data m)))
              (replicate (width m * height m * 4) 0))"
proof (cases "\<not> data_falsy (data m) \<and> data_length (data m) \<noteq> 0
        \<and> to_byte_array atob (data m) \<noteq> None \<and> width m \<noteq> 0 \<and> height m \<noteq> 0
        \<and> supported_encoding (encoding m)")
  case True
  then obtain bs where bs: "to_byte_array atob (data m) = Some bs" by auto
  have "convert (encoding m) bs (replicate (width m * height m * 4) 0) \<noteq> None"
    using True convert_supported [of "encoding m" bs "replicate (width m * height m * 4) 0"]
    by blast
  then obtain r where r: "convert (encoding m) bs (replicate (width m * height m * 4) 0) = Some r"
    by auto
  have len: "length r = width m * height m * 4"
    using convert_length [OF r] by simp
  have "handleRawImage atob now s m =
     (Rendered, (set_canvas_size (updateFPS now s) (width m) (height m))\<lparr>canvasPixels := r\<rparr>)"
    using True bs r by (intro handleRawImage_rendered) simp_all
  then show ?thesis
    using True bs r len by (simp add: set_canvas_size_fields)
next
  case False
  then have "data_falsy (data m) \<or> data_length (data m) = 0
           \<or> to_byte_array atob (data m) = None \<or> width m = 0 \<or> height m = 0
           \<or> convert (encoding m) (the (to_byte_array atob (data m)))
                 (replicate (width m * height m * 4) 0) = None"
    using convert_supported [of "encoding m" "the (to_byte_array atob (data m))"
        "replicate (width m * height m * 4) 0"] by auto
  from handleRawImage_not_rendered [OF this] False show ?thesis by simp
qed

lemma convert_mono8: "convert ''mono8'' bs img = Some (mono8_loop bs 0 img)"
  by (simp add: convert_def)

text \<open>
  Claim C4, as the spec states it, fails on the code. A \<open>mono8\<close> image declared
  1 x 1 with a payload of two bytes, and an \<open>rgb8\<close> image declared 2 x 1 with a
  payload of three bytes instead of six, are both rendered: the frame shown before is
  replaced, in the second case by a buffer whose second pixel was never written.
\<close>

theorem C4_counterexample:
  "length [7, 9 :: byte] \<noteq> 1 * 1 * bytes_per_pixel ''mono8''
   \<and> canvasPixels showing_frame = [1, 2, 3, 255]
   \<and> fst (handleRawImage (\<lambda>x. None) 0 showing_frame
        \<lparr>width = 1, height = 1, encoding = ''mono8'', data = ByteArray [7, 9]\<rparr>) = Rendered
   \<and> canvasPixels (snd (handleRawImage (\<lambda>x. None) 0 showing_frame
        \<lparr>width = 1, height = 1, encoding = ''mono8'', data = ByteArray [7, 9]\<rparr>))
       = [7, 7, 7, 255]
   \<and> length [1, 2, 3 :: byte] \<noteq> 2 * 1 * bytes_per_pixel ''rgb8''
   \<and> fst (handleRawImage (\<lambda>x. None) 0 showing_frame
        \<lparr>width = 2, height = 1, encoding = ''rgb8'', data = ByteArray [1, 2, 3]\<rparr>) = Rendered
   \<and> canvasPixels (snd (handleRawImage (\<lambda>x. None) 0 showing_frame
        \<lparr>width = 2, height = 1, encoding = ''rgb8'', data = ByteArray [1, 2, 3]\<rparr>))
       = [1, 2, 3, 255, 0, 0, 0, 0]"
proof -
  let ?m1 = "\<lparr>width = 1, height = 1, encoding = ''mono8'', data = ByteArray [7, 9]\<rparr>"
  let ?m2 = "\<lparr>width = 2, height = 1, encoding = ''rgb8'', data = ByteArray [1, 2, 3]\<rparr>"
  have m: "mono8_loop [7, 9] 0 (replicate 4 0) = [7, 7, 7, 255]"
    by code_simp
  have r: "rgb8_loop [1, 2, 3] 0 (replicate 8 0) = [1, 2, 3, 255, 0, 0, 0, 0]"
    by code_simp
  have h1: "handleRawImage (\<lambda>x. None) 0 showing_frame ?m1 =
      (Rendered, (set_canvas_size (updateFPS 0 showing_frame) (width ?m1) (height ?m1))
         \<lparr>canvasPixels := [7, 7, 7, 255]\<rparr>)"
    by (rule handleRawImage_rendered [where bs = "[7, 9]"])
       (simp_all add: data_falsy_def data_length_def to_byte_array_def convert_mono8 m)
  have h2: "handleRawImage (\<lambda>x. None) 0 showing_frame ?m2 =
      (Rendered, (set_canvas_size (updateFPS 0 showing_frame) (width ?m2) (height ?m2))
         \<lparr>canvasPixels := [1, 2, 3, 255, 0, 0, 0, 0]\<rparr>)"
    by (rule handleRawImage_rendered [where bs = "[1, 2, 3]"])
       (simp_all add: data_falsy_def data_length_def to_byte_array_def convert_rgb8 r)
  have f: "canvasPixels showing_frame = [1, 2, 3, 255]"
    by (simp add: showing_frame_def)
  have b: "bytes_per_pixel ''mono8'' = 1" "bytes_per_pixel ''rgb8'' = 3"
    by (simp_all add: bytes_per_pixel_def)
  show ?thesis
    unfolding h1 h2 b using f by simp
qed

theorem C4_no_length_check_witness:
  "length [7, 9 :: byte] \<noteq> 1 * 1 * bytes_per_pixel ''mono8''
   \<and> fst (handleRawImage (\<lambda>x. None) 0 showing_frame
        \<lparr>width = 1, height = 1, encoding = ''mono8'', data = ByteArray [7, 9]\<rparr>) = Rendered
   \<and> length (canvasPixels (snd (handleRawImage (\<lambda>x. None) 0 showing_frame
        \<lparr>width = 1, height = 1, encoding = ''mono8'', data = ByteArray [7, 9]\<rparr>))) = 4"
proof -
  let ?m1 = "\<lparr>width = 1, height = 1, encoding = ''mono8'', data = ByteArray [7, 9]\<rparr>"
  have p: "\<not> data_falsy (data ?m1)" "data_length (data ?m1) \<noteq> 0"
    "to_byte_array (\<lambda>x. None) (data ?m1) \<noteq> None"
    by (simp_all add: data_falsy_def data_length_def to_byte_array_def)
  have e: "supported_encoding (encoding ?m1)"
    by (simp add: supported_encoding_def)
  have b: "bytes_per_pixel ''mono8'' = 1"
    by (simp add: bytes_per_pixel_def)
  have w: "width ?m1 = 1" "height ?m1 = 1"
    by simp_all
  have "fst (handleRawImage (\<lambda>x. None) 0 showing_frame ?m1) = Rendered
    \<and> length (canvasPixels (snd (handleRawImage (\<lambda>x. None) 0 showing_frame ?m1))) = 4"
    using C4_no_length_check [of "\<lambda>x. None" 0 showing_frame ?m1] p e
    unfolding w by simp
  then show ?thesis
    unfolding b by simp
qed

subsection \<open>The fallback from compressed to raw images\<close>

lemma updateFPS_frame:
  "cameraTopic (updateFPS now s) = cameraTopic s"
  "topics (updateFPS now s) = topics s"
  "probes (updateFPS now s) = probes s"
  "cameraSubscriber (updateFPS now s) = cameraSubscriber s"
  "dispatched (updateFPS now s) = dispatched s"
  by (simp_all add: updateFPS_def cam_updateStatus_def Let_def)

lemma set_canvas_size_frame:
  "cameraTopic (set_canvas_size s w h) = cameraTopic s"
  "topics (set_canvas_size s w h) = topics s"
  "probes (set_canvas_size s w h) = probes s"
  "cameraSubscriber (set_canvas_size s w h) = cameraSubscriber s"
  "dispatched (set_canvas_size s w h) = dispatched s"
  by (simp_all add: set_canvas_size_def)

lemma handleRawImage_frame:
  "cameraTopic (snd (handleRawImage atob now s m)) = cameraTopic s"
  "topics (snd (handleRawImage atob now s m)) = topics s"
  "probes (snd (handleRawImage atob now s m)) = probes s"
  "cameraSubscriber (snd (handleRawImage atob now s m)) = cameraSubscriber s"
  "dispatched (snd (handleRawImage atob now s m)) = dispatched s"
  by (simp_all add: handleRawImage_def Let_def updateFPS_frame set_canvas_size_frame
      split: option.splits)

lemma probing_start:
  "probing (cameraTopic (cam_connected t w h now)) (subscribeToCamera (cam_connected t w h now))"
  by (simp add: probing_def subscribeToCamera_def subscribeCompressedImage_def
      cam_connected_def compressed_topic_def)

lemma probing_timeout:
  assumes "probing c s"
  shows "fallen_back c (cam_step atob s (ProbeTimeout 0))"
  using assms
  by (simp add: probing_def fallen_back_def probe_timeout_def subscribeRawImage_def
      unsubscribe_current_def cam_updateStatus_def compressed_topic_def raw_topic_def Let_def)

lemma probing_other_timeout:
  assumes "probing c s" and "k \<noteq> 0"
  shows "cam_step atob s (ProbeTimeout k) = s"
  using assms by (simp add: probing_def)

lemma probing_other_message:
  assumes "probing c s" and "name \<noteq> c @ ''/compressed''"
  shows "cam_step atob s (Incoming name now m) = s"
  using assms by (simp add: probing_def deliver_def compressed_topic_def)

lemma probing_step:
  assumes "probing c s" and "\<not> compressed_arrival s e"
  shows "probing c (cam_step atob s e) \<or> fallen_back c (cam_step atob s e)"
proof (cases e)
  case (Incoming name now m)
  then have "name \<noteq> c @ ''/compressed''"
    using assms by (simp add: compressed_arrival_def probing_def)
  then show ?thesis
    using assms(1) Incoming probing_other_message by simp
next
  case (ProbeTimeout k)
  show ?thesis
  proof (cases "k = 0")
    case True
    then show ?thesis using probing_timeout [OF assms(1)] ProbeTimeout by simp
  next
    case False
    then show ?thesis using probing_other_timeout [OF assms(1)] assms(1) ProbeTimeout by simp
  qed
qed

lemma fallen_back_step:
  assumes "fallen_back c s"
  shows "fallen_back c (cam_step atob s e)"
proof (cases e)
  case (Incoming name now m)
  show ?thesis
    using assms unfolding Incoming
    by (simp add: fallen_back_def deliver_def run_callback_def compressed_topic_def
        raw_topic_def handleRawImage_frame)
next
  case (ProbeTimeout k)
  show ?thesis
    using assms unfolding ProbeTimeout
    by (cases k) (simp_all add: fallen_back_def)
qed

lemma fallen_back_run:
  "fallen_back c s \<Longrightarrow> fallen_back c (cam_run atob s es)"
  unfolding cam_run_def
  by (induction es arbitrary: s) (simp_all add: fallen_back_step)

lemma compressed_arrival_topic:
  "cameraTopic s = cameraTopic s' \<Longrightarrow> compressed_arrival s e = compressed_arrival s' e"
  by (simp add: compressed_arrival_def split: cam_event.splits)

lemma before_timeout_run:
  assumes "probing c s0 \<or> fallen_back c s0" and "cameraTopic s = c"
    and "list_all (\<lambda>e. \<not> compressed_arrival s e) es"
  shows "probing c (cam_run atob s0 es) \<or> fallen_back c (cam_run atob s0 es)"
  using assms unfolding cam_run_def
proof (induction es arbitrary: s0)
  case Nil
  then show ?case by simp
next
  case (Cons e es)
  have e: "\<not> compressed_arrival s e" using Cons.prems(3) by simp
  have "probing c (cam_step atob s0 e) \<or> fallen_back c (cam_step atob s0 e)"
  proof (cases "probing c s0")
    case True
    then have "cameraTopic s0 = cameraTopic s"
      using Cons.prems(2) by (simp add: probing_def)
    then have "\<not> compressed_arrival s0 e"
      using e compressed_arrival_topic by blast
    then show ?thesis using probing_step [OF True] by simp
  next
    case False
    then show ?thesis using Cons.prems(1) fallen_back_step by blast
  qed
  then show ?case
    using Cons.IH [of "cam_step atob s0 e"] Cons.prems(2,3) by simp
qed

lemma fallen_back_result:
  assumes "fallen_back c s"
  shows "active_subscriptions s = [raw_topic c]"
    and "filter (\<lambda>h. h = HandleCompressed) (dispatched s) = []"
    and "filter (\<lambda>t. ct_messageType t = ''sensor_msgs/Image'') (topics s) = [raw_topic c]"
    and "filter timeoutPending (probes s) = []"
  using assms
  by (simp_all add: fallen_back_def active_subscriptions_def compressed_topic_def raw_topic_def)

text \<open>
  Claim C6. Take a camera object that has just subscribed (compressed topic, timeout
  armed), any events before the timeout among which no message arrives on the compressed
  topic, the firing of the timeout, and any events at all afterwards, late compressed
  messages and further timer events included. In the end exactly one subscription is
  active, the raw one on the bare topic; no compressed image was ever passed to its
  handler; exactly one raw \<open>Topic\<close> object was ever created, so the fallback ran
  once; and no timeout is pending that could run it again.
\<close>

theorem C6_fallback_once:
  assumes "s0 = subscribeToCamera (cam_connected t w h now)"
    and "list_all (\<lambda>e. \<not> compressed_arrival s0 e) before"
    and "s' = cam_run atob s0 (before @ ProbeTimeout 0 # after)"
  shows "active_subscriptions s' = [raw_topic (cameraTopic s0)]
    \<and> filter (\<lambda>h. h = HandleCompressed) (dispatched s') = []
    \<and> filter (\<lambda>t. ct_messageType t = ''sensor_msgs/Image'') (topics s')
        = [raw_topic (cameraTopic s0)]
    \<and> filter timeoutPending (probes s') = []"
proof -
  let ?c = "cameraTopic s0"
  have c: "?c = cameraTopic (cam_connected t w h now)"
    by (simp add: assms(1) subscribeToCamera_def subscribeCompressedImage_def)
  have p: "probing ?c s0"
    unfolding c using probing_start [of t w h now] assms(1) by simp
  have b: "probing ?c (cam_run atob s0 before) \<or> fallen_back ?c (cam_run atob s0 before)"
    using before_timeout_run [of ?c s0 s0 before atob] p assms(2) by simp
  have f: "fallen_back ?c (cam_step atob (cam_run atob s0 before) (ProbeTimeout 0))"
    using b probing_timeout fallen_back_step by blast
  have "s' = cam_run atob (cam_step atob (cam_run atob s0 before) (ProbeTimeout 0)) after"
    by (simp add: assms(3) cam_run_def)
  then have "fallen_back ?c s'"
    using fallen_back_run [OF f] by simp
  then show ?thesis
    using fallen_back_result by blast
qed

theorem C6_fallback_once_witness:
  "list_all (\<lambda>e. \<not> compressed_arrival probe_start e) [Incoming ''/cam'' 10 gray_pixel]
   \<and> active_subscriptions (cam_run (\<lambda>x. None) probe_start
        ([Incoming ''/cam'' 10 gray_pixel] @ ProbeTimeout 0 #
         [Incoming ''/cam/compressed'' 4000 jpeg_frame, ProbeTimeout 0,
          Incoming ''/cam'' 5000 gray_pixel]))
       = [raw_topic ''/cam'']
   \<and> filter (\<lambda>h. h = HandleCompressed) (dispatched (cam_run (\<lambda>x. None) probe_start
        ([Incoming ''/cam'' 10 gray_pixel] @ ProbeTimeout 0 #
         [Incoming ''/cam/compressed'' 4000 jpeg_frame, ProbeTimeout 0,
          Incoming ''/cam'' 5000 gray_pixel]))) = []
   \<and> filter (\<lambda>t. ct_messageType t = ''sensor_msgs/Image'') (topics (cam_run (\<lambda>x. None) probe_start
        ([Incoming ''/cam'' 10 gray_pixel] @ ProbeTimeout 0 #
         [Incoming ''/cam/compressed'' 4000 jpeg_frame, ProbeTimeout 0,
          Incoming ''/cam'' 5000 gray_pixel]))) = [raw_topic ''/cam'']
   \<and> dispatched (cam_run (\<lambda>x. None) probe_start
        ([Incoming ''/cam'' 10 gray_pixel] @ ProbeTimeout 0 #
         [Incoming ''/cam/compressed'' 4000 jpeg_frame, ProbeTimeout 0,
          Incoming ''/cam'' 5000 gray_pixel])) = [HandleRaw]"
proof -
  have d: "dispatched (cam_run (\<lambda>x. None) probe_start
        ([Incoming ''/cam'' 10 gray_pixel] @ ProbeTimeout 0 #
         [Incoming ''/cam/compressed'' 4000 jpeg_frame, ProbeTimeout 0,
          Incoming ''/cam'' 5000 gray_pixel])) = [HandleRaw]"
    by (simp add: cam_run_def probe_start_def subscribeToCamera_def
        subscribeCompressedImage_def cam_connected_def deliver_def run_callback_def
        probe_timeout_def subscribeRawImage_def unsubscribe_current_def cam_updateStatus_def
        Let_def handleRawImage_frame)
  have c: "cameraTopic probe_start = ''/cam''"
    by (simp add: probe_start_def subscribeToCamera_def subscribeCompressedImage_def
        cam_connected_def)
  have b: "list_all (\<lambda>e. \<not> compressed_arrival probe_start e) [Incoming ''/cam'' 10 gray_pixel]"
    by (simp add: compressed_arrival_def c)
  show ?thesis
    using C6_fallback_once [OF probe_start_def b refl, of "\<lambda>x. None"
        "[Incoming ''/cam/compressed'' 4000 jpeg_frame, ProbeTimeout 0,
          Incoming ''/cam'' 5000 gray_pixel]"] b d
    unfolding c by simp
qed

end
